theory Spec2Isabelle
  imports Main "HOL-Library.Multiset"
begin

section \<open>Python values the ordering models use\<close>

text \<open>
  The module \<^verbatim>\<open>web/ordering/models.py\<close> builds option dictionaries whose values are
  \<^verbatim>\<open>False\<close>, \<^verbatim>\<open>True\<close>, \<^verbatim>\<open>None\<close> or a string, and formats order ids from strings and
  the integer fields of a \<^verbatim>\<open>datetime\<close>.
\<close>

datatype py_value = PyNone | PyBool bool | PyInt int | PyStr string

datatype py_error = IndexError | TypeError | ValueError | UnicodeEncodeError

type_synonym dict = "string \<rightharpoonup> py_value"

subsection \<open>\<^verbatim>\<open>str\<close> on integers: plain decimal, no padding\<close>

definition digit_char :: "nat \<Rightarrow> char" where
  "digit_char n = ''0123456789'' ! n"

function str_nat :: "nat \<Rightarrow> string" where
  "str_nat n = (if n < 10 then [digit_char n] else str_nat (n div 10) @ [digit_char (n mod 10)])"
  by pat_completeness auto
termination
  by (relation "measure (\<lambda>n. n)") auto

declare str_nat.simps [simp del]

definition str_int :: "int \<Rightarrow> string" where
  "str_int i = (if i < 0 then CHR ''-'' # str_nat (nat (- i)) else str_nat (nat i))"

fun py_str :: "py_value \<Rightarrow> string" where
  "py_str PyNone = ''None''"
| "py_str (PyBool b) = (if b then ''True'' else ''False'')"
| "py_str (PyInt i) = str_int i"
| "py_str (PyStr s) = s"

subsection \<open>\<^verbatim>\<open>str\<close> on unicode objects\<close>

text \<open>
  The module is Python 2 (\<^verbatim>\<open>__unicode__\<close> methods, \<^verbatim>\<open>ForeignKey\<close> without
  \<^verbatim>\<open>on_delete\<close>), where Django hands a \<^verbatim>\<open>CharField\<close> back as a \<^verbatim>\<open>unicode\<close> object: a
  sequence of code points. \<^verbatim>\<open>str(u)\<close> encodes it with the ASCII codec and raises
  \<^verbatim>\<open>UnicodeEncodeError\<close> unless every code point is below 128.
\<close>

type_synonym unicode = "nat list"



subsection \<open>The \<^verbatim>\<open>%\<close> operator with a tuple of arguments\<close>

text \<open>
  \<^verbatim>\<open>fmt % (a1, ..., an)\<close>, for the two directives the module uses: \<^verbatim>\<open>%s\<close> takes the next
  argument and inserts its \<^verbatim>\<open>str\<close>; \<^verbatim>\<open>%%\<close> is a percent sign. Too few arguments, or
  arguments left over at the end, raise \<^verbatim>\<open>TypeError\<close>; a lone \<^verbatim>\<open>%\<close> at the end raises
  \<^verbatim>\<open>ValueError\<close>. Any other directive is outside this model and is reported as
  \<^verbatim>\<open>ValueError\<close> too (the module has none).
\<close>

fun py_format :: "string \<Rightarrow> py_value list \<Rightarrow> py_error + string" where
  "py_format [] [] = Inr []"
| "py_format [] (a # as) = Inl TypeError"
| "py_format (c # cs) as =
     (if c = CHR ''%'' then
        (case cs of
           [] \<Rightarrow> Inl ValueError
         | d # ds \<Rightarrow>
             if d = CHR ''s'' then
               (case as of
                  [] \<Rightarrow> Inl TypeError
                | a # as' \<Rightarrow>
                    (case py_format ds as' of
                       Inl e \<Rightarrow> Inl e
                     | Inr r \<Rightarrow> Inr (py_str a @ r)))
             else if d = CHR ''%'' then
               (case py_format ds as of
                  Inl e \<Rightarrow> Inl e
                | Inr r \<Rightarrow> Inr (CHR ''%'' # r))
             else Inl ValueError)
      else
        (case py_format cs as of
           Inl e \<Rightarrow> Inl e
         | Inr r \<Rightarrow> Inr (c # r)))"

section \<open>The persistent schema\<close>

text \<open>
  \<^verbatim>\<open>datetime.datetime\<close>, with the fields \<^verbatim>\<open>generate_order_id\<close> reads. Python keeps them
  in the ranges of \<open>valid_datetime\<close> (days are bounded by 31 here, not by the month).
\<close>

record datetime =
  year :: int
  month :: int
  day :: int
  hour :: int
  minute :: int
  second :: int

definition valid_datetime :: "datetime \<Rightarrow> bool" where
  "valid_datetime d =
     (1 \<le> year d \<and> year d \<le> 9999 \<and> 1 \<le> month d \<and> month d \<le> 12 \<and>
      1 \<le> day d \<and> day d \<le> 31 \<and> 0 \<le> hour d \<and> hour d \<le> 23 \<and>
      0 \<le> minute d \<and> minute d \<le> 59 \<and> 0 \<le> second d \<and> second d \<le> 59)"

text \<open>
  One record per Django model. A foreign key is the row number it refers to; a field
  declared \<^verbatim>\<open>null=True\<close> is an option. Two field names are Isar keywords and carry a
  prime: \<open>note'\<close> and \<open>value'\<close>. Of the text fields only \<^verbatim>\<open>Configuration.value\<close> is ever
  passed to \<^verbatim>\<open>str\<close>, so it is kept as the unicode object it is; the other text fields
  are only stored and compared, and are strings here.
\<close>

record UserProfile =
  user :: nat
  contactid :: string

record Order =
  orderid :: string
  email :: string
  user :: nat
  order_type :: string
  order_date :: datetime
  completion_date :: "datetime option"
  status :: string
  note' :: "string option"
  product_options :: string
  order_source :: string
  ee_order_id :: string

record Scene =
  name :: string
  note' :: "string option"
  order :: nat
  product_distro_location :: string
  product_dload_url :: string
  cksum_distro_location :: string
  cksum_download_url :: string
  tram_order_id :: "string option"
  ee_unit_id :: "int option"
  status :: string
  processing_location :: string
  completion_date :: "datetime option"
  log_file_contents :: "string option"

record Configuration =
  key :: string
  value' :: unicode

text \<open>
  What a call can read or write: the four tables, the dictionaries allocated so far (a
  dictionary object is its index in \<open>heap\<close>, and \<^verbatim>\<open>{}\<close> appends a new one), and the
  wall clock that \<^verbatim>\<open>datetime.datetime.now()\<close> reads.
\<close>

record world =
  user_profiles :: "UserProfile list"
  orders :: "Order list"
  scenes :: "Scene list"
  configurations :: "Configuration list"
  heap :: "dict list"
  clock :: datetime

section \<open>Order ids\<close>

text \<open>
  The methods of \<^verbatim>\<open>Order\<close> never touch \<^verbatim>\<open>self\<close>, so the model does not pass it. Each
  takes the world and returns its result with the world after the call.
\<close>

definition generate_ee_order_id :: "world \<Rightarrow> string \<Rightarrow> string \<Rightarrow> (py_error + string) \<times> world" where
  "generate_ee_order_id w email' eeorder =
     (py_format ''%s-%s'' [PyStr email', PyStr eeorder], w)"

text \<open>
  \<^verbatim>\<open>d = datetime.datetime.now()\<close> reads the clock; the seven arguments go through
  \<^verbatim>\<open>%s\<close>, so each integer is rendered by \<^verbatim>\<open>str\<close>.
\<close>

definition generate_order_id :: "world \<Rightarrow> string \<Rightarrow> (py_error + string) \<times> world" where
  "generate_order_id w email' =
     (let d = clock w in
      (py_format ''%s-%s%s%s-%s%s%s''
         [PyStr email', PyInt (month d), PyInt (day d), PyInt (year d),
          PyInt (hour d), PyInt (minute d), PyInt (second d)], w))"

section \<open>Dictionary objects\<close>

text \<open>
  \<^verbatim>\<open>o = {}\<close> allocates, \<^verbatim>\<open>o[k] = v\<close> and \<^verbatim>\<open>o.update(p)\<close> mutate the object \<open>o'\<close> refers
  to. References come from \<open>new_dict\<close> only, so they are always inside the heap.
  Nothing is reclaimed: a dictionary that is no longer referenced stays where it is.
\<close>

definition new_dict :: "world \<Rightarrow> nat \<times> world" where
  "new_dict w = (length (heap w), w\<lparr>heap := heap w @ [Map.empty]\<rparr>)"

definition setitem :: "nat \<Rightarrow> string \<Rightarrow> py_value \<Rightarrow> world \<Rightarrow> world" where
  "setitem a k v w = w\<lparr>heap := (heap w)[a := (heap w ! a)(k \<mapsto> v)]\<rparr>"

definition dict_update :: "nat \<Rightarrow> nat \<Rightarrow> world \<Rightarrow> world" where
  "dict_update a b w = w\<lparr>heap := (heap w)[a := (heap w ! a) ++ (heap w ! b)]\<rparr>"

section \<open>Default option factories of \<^verbatim>\<open>Order\<close>\<close>

definition get_default_product_options :: "world \<Rightarrow> nat \<times> world" where
  "get_default_product_options w0 =
     (let (o', w) = new_dict w0;
          w = setitem o' ''include_sourcefile'' (PyBool False) w;
          w = setitem o' ''include_source_metadata'' (PyBool False) w;
          w = setitem o' ''include_sr_toa'' (PyBool False) w;
          w = setitem o' ''include_sr_thermal'' (PyBool False) w;
          w = setitem o' ''include_sr'' (PyBool False) w;
          w = setitem o' ''include_sr_browse'' (PyBool False) w;
          w = setitem o' ''include_sr_ndvi'' (PyBool False) w;
          w = setitem o' ''include_sr_ndmi'' (PyBool False) w;
          w = setitem o' ''include_sr_nbr'' (PyBool False) w;
          w = setitem o' ''include_sr_nbr2'' (PyBool False) w;
          w = setitem o' ''include_sr_savi'' (PyBool False) w;
          w = setitem o' ''include_sr_msavi'' (PyBool False) w;
          w = setitem o' ''include_sr_evi'' (PyBool False) w;
          w = setitem o' ''include_swe'' (PyBool False) w;
          w = setitem o' ''include_sca'' (PyBool False) w;
          w = setitem o' ''include_solr_index'' (PyBool False) w;
          w = setitem o' ''include_cfmask'' (PyBool False) w
      in (o', w))"

definition get_default_projection_options :: "world \<Rightarrow> nat \<times> world" where
  "get_default_projection_options w0 =
     (let (o', w) = new_dict w0;
          w = setitem o' ''reproject'' (PyBool False) w;
          w = setitem o' ''target_projection'' PyNone w;
          w = setitem o' ''central_meridian'' PyNone w;
          w = setitem o' ''false_easting'' PyNone w;
          w = setitem o' ''false_northing'' PyNone w;
          w = setitem o' ''origin_lat'' PyNone w;
          w = setitem o' ''std_parallel_1'' PyNone w;
          w = setitem o' ''std_parallel_2'' PyNone w;
          w = setitem o' ''datum'' (PyStr ''wgs84'') w;
          w = setitem o' ''utm_zone'' PyNone w;
          w = setitem o' ''utm_north_south'' PyNone w
      in (o', w))"

definition get_default_subset_options :: "world \<Rightarrow> nat \<times> world" where
  "get_default_subset_options w0 =
     (let (o', w) = new_dict w0;
          w = setitem o' ''image_extents'' (PyBool False) w;
          w = setitem o' ''minx'' PyNone w;
          w = setitem o' ''miny'' PyNone w;
          w = setitem o' ''maxx'' PyNone w;
          w = setitem o' ''maxy'' PyNone w
      in (o', w))"

definition get_default_resize_options :: "world \<Rightarrow> nat \<times> world" where
  "get_default_resize_options w0 =
     (let (o', w) = new_dict w0;
          w = setitem o' ''resize'' (PyBool False) w;
          w = setitem o' ''pixel_size'' PyNone w;
          w = setitem o' ''pixel_size_units'' PyNone w
      in (o', w))"

definition get_default_resample_options :: "world \<Rightarrow> nat \<times> world" where
  "get_default_resample_options w0 =
     (let (o', w) = new_dict w0;
          w = setitem o' ''resample_method'' (PyStr ''near'') w
      in (o', w))"

definition get_default_options :: "world \<Rightarrow> nat \<times> world" where
  "get_default_options w0 =
     (let (o', w) = new_dict w0;
          (p, w) = get_default_product_options w;
          w = dict_update o' p w;
          (p, w) = get_default_projection_options w;
          w = dict_update o' p w;
          (p, w) = get_default_subset_options w;
          w = dict_update o' p w;
          (p, w) = get_default_resize_options w;
          w = dict_update o' p w;
          (p, w) = get_default_resample_options w;
          w = dict_update o' p w
      in (o', w))"

definition get_default_ee_options :: "world \<Rightarrow> nat \<times> world" where
  "get_default_ee_options w0 =
     (let (o', w) = new_dict w0;
          w = setitem o' ''include_sourcefile'' (PyBool False) w;
          w = setitem o' ''include_source_metadata'' (PyBool False) w;
          w = setitem o' ''include_sr_toa'' (PyBool False) w;
          w = setitem o' ''include_sr_thermal'' (PyBool False) w;
          w = setitem o' ''include_sr'' (PyBool True) w;
          w = setitem o' ''include_sr_browse'' (PyBool False) w;
          w = setitem o' ''include_sr_ndvi'' (PyBool False) w;
          w = setitem o' ''include_sr_ndmi'' (PyBool False) w;
          w = setitem o' ''include_sr_nbr'' (PyBool False) w;
          w = setitem o' ''include_sr_nbr2'' (PyBool False) w;
          w = setitem o' ''include_sr_savi'' (PyBool False) w;
          w = setitem o' ''include_sr_evi'' (PyBool False) w;
          w = setitem o' ''include_solr_index'' (PyBool False) w;
          w = setitem o' ''include_cfmask'' (PyBool False) w;
          w = setitem o' ''reproject'' (PyBool False) w;
          w = setitem o' ''resize'' (PyBool False) w;
          w = setitem o' ''image_extents'' (PyBool False) w
      in (o', w))"

text \<open>The dictionary a factory hands back: the object its result refers to, after the call.\<close>

definition returned :: "(world \<Rightarrow> nat \<times> world) \<Rightarrow> world \<Rightarrow> dict" where
  "returned f w = (case f w of (a, w') \<Rightarrow> heap w' ! a)"

section \<open>Scene status\<close>



section \<open>Configuration\<close>




section \<open>Vocabulary of the properties\<close>

text \<open>
  A decimal field of an order id: between \<open>lo\<close> and \<open>hi\<close> characters, all of them
  digits, denoting the number \<open>v\<close>.
\<close>

definition is_digit :: "char \<Rightarrow> bool" where
  "is_digit c = (c \<in> set ''0123456789'')"

definition digit_val :: "char \<Rightarrow> nat" where
  "digit_val c = of_char c - 48"

definition decimal_value :: "string \<Rightarrow> nat" where
  "decimal_value s = foldl (\<lambda>a c. 10 * a + digit_val c) 0 s"

definition decimal_field :: "nat \<Rightarrow> nat \<Rightarrow> int \<Rightarrow> string \<Rightarrow> bool" where
  "decimal_field lo hi v s =
     (lo \<le> length s \<and> length s \<le> hi \<and> list_all is_digit s \<and> int (decimal_value s) = v)"

text \<open>The product-inclusion flags, as the specification lists them.\<close>

definition product_flags :: "string list" where
  "product_flags =
     [''include_sourcefile'', ''include_source_metadata'', ''include_sr_toa'',
      ''include_sr_thermal'', ''include_sr'', ''include_sr_browse'', ''include_sr_ndvi'',
      ''include_sr_ndmi'', ''include_sr_nbr'', ''include_sr_nbr2'', ''include_sr_savi'',
      ''include_sr_msavi'', ''include_sr_evi'', ''include_swe'', ''include_sca'',
      ''include_solr_index'', ''include_cfmask'']"

text \<open>
  The five component dictionaries, in the order \<^verbatim>\<open>get_default_options\<close> merges them, and
  the result of \<^verbatim>\<open>o = {}\<close> followed by \<^verbatim>\<open>o.update(p)\<close> for each \<open>p\<close> of a list in turn.
\<close>

definition component_defaults :: "world \<Rightarrow> dict list" where
  "component_defaults w =
     [returned get_default_product_options w,
      returned get_default_projection_options w,
      returned get_default_subset_options w,
      returned get_default_resize_options w,
      returned get_default_resample_options w]"

definition merge_all :: "dict list \<Rightarrow> dict" where
  "merge_all ps = fold (\<lambda>p o'. o' ++ p) ps Map.empty"

text \<open>The tables of a world, without its heap and clock.\<close>

definition tables ::
  "world \<Rightarrow> UserProfile list \<times> Order list \<times> Scene list \<times> Configuration list" where
  "tables w = (user_profiles w, orders w, scenes w, configurations w)"


text \<open>
  Concrete inputs: three clock readings, a world with empty tables, a scene, and three
  configuration tables.
\<close>

definition clock0 :: datetime where
  "clock0 = \<lparr>year = 2014, month = 1, day = 2, hour = 3, minute = 4, second = 5\<rparr>"

definition clock1 :: datetime where
  "clock1 = \<lparr>year = 2014, month = 11, day = 2, hour = 1, minute = 23, second = 4\<rparr>"

definition clock2 :: datetime where
  "clock2 = \<lparr>year = 2014, month = 1, day = 12, hour = 12, minute = 3, second = 4\<rparr>"

definition world0 :: world where
  "world0 = \<lparr>user_profiles = [], orders = [], scenes = [], configurations = [],
             heap = [], clock = clock0\<rparr>"





section \<open>Properties\<close>

subsection \<open>Decimal rendering\<close>

lemma digit_char_is_digit: "n < 10 \<Longrightarrow> is_digit (digit_char n)"
  unfolding is_digit_def digit_char_def by (rule nth_mem) simp

lemma digit_val_digit_char: "n < 10 \<Longrightarrow> digit_val (digit_char n) = n"
proof -
  assume "n < 10"
  then have "n \<in> {0, 1, 2, 3, 4, 5, 6, 7, 8, 9}" by auto
  then show ?thesis
    by (auto simp: digit_char_def digit_val_def)
qed

lemma str_nat_small: "n < 10 \<Longrightarrow> str_nat n = [digit_char n]"
  by (simp add: str_nat.simps)

lemma str_nat_large: "\<not> n < 10 \<Longrightarrow> str_nat n = str_nat (n div 10) @ [digit_char (n mod 10)]"
  by (subst str_nat.simps) simp

lemma str_nat_digits: "list_all is_digit (str_nat n)"
proof (induction n rule: str_nat.induct)
  case (1 n)
  show ?case
  proof (cases "n < 10")
    case True
    then show ?thesis by (simp add: str_nat_small digit_char_is_digit)
  next
    case False
    with 1 show ?thesis by (simp add: str_nat_large digit_char_is_digit)
  qed
qed

lemma decimal_value_str_nat: "decimal_value (str_nat n) = n"
proof (induction n rule: str_nat.induct)
  case (1 n)
  show ?case
  proof (cases "n < 10")
    case True
    then show ?thesis by (simp add: str_nat_small decimal_value_def digit_val_digit_char)
  next
    case False
    with 1 have "decimal_value (str_nat (n div 10)) = n div 10" by simp
    with False show ?thesis
      by (simp add: str_nat_large decimal_value_def digit_val_digit_char)
  qed
qed

lemma length_str_nat:
  "length (str_nat n) = (if n < 10 then 1 else Suc (length (str_nat (n div 10))))"
  by (simp add: str_nat_small str_nat_large)

lemma length_str_nat_1_2: "n < 100 \<Longrightarrow> length (str_nat n) = (if n < 10 then 1 else 2)"
proof -
  assume "n < 100"
  then have "n div 10 < 10" by arith
  then show ?thesis by (simp add: length_str_nat)
qed

lemma length_str_nat_4: "1000 \<le> n \<Longrightarrow> n < 10000 \<Longrightarrow> length (str_nat n) = 4"
proof -
  assume a: "1000 \<le> n" "n < 10000"
  then have "\<not> n < 10" "\<not> n div 10 < 10" "\<not> n div 10 div 10 < 10" "n div 10 div 10 div 10 < 10"
    by arith+
  then show ?thesis by (simp add: length_str_nat)
qed

lemma decimal_field_1_2: "0 \<le> v \<Longrightarrow> v \<le> 99 \<Longrightarrow> decimal_field 1 2 v (str_int v)"
  by (simp add: decimal_field_def str_int_def str_nat_digits decimal_value_str_nat length_str_nat_1_2)

lemma decimal_field_4: "1000 \<le> v \<Longrightarrow> v \<le> 9999 \<Longrightarrow> decimal_field 4 4 v (str_int v)"
  by (simp add: decimal_field_def str_int_def str_nat_digits decimal_value_str_nat length_str_nat_4)

subsection \<open>Order ids\<close>

lemma generate_ee_order_id_value:
  "fst (generate_ee_order_id w e x) = Inr (e @ ''-'' @ x)"
  by (simp add: generate_ee_order_id_def)

lemma generate_order_id_value:
  "fst (generate_order_id w e) =
     Inr (e @ ''-'' @ str_int (month (clock w)) @ str_int (day (clock w)) @ str_int (year (clock w))
            @ ''-'' @ str_int (hour (clock w)) @ str_int (minute (clock w)) @ str_int (second (clock w)))"
  by (simp add: generate_order_id_def Let_def)

text \<open>
  On a clock reading in the ranges Python keeps, with a year of four digits,
  \<^verbatim>\<open>generate_order_id(e)\<close> does not raise and returns \<open>e\<close>, a hyphen, the month, the day
  and the year, a hyphen, and the hour, the minute and the second of that reading, each a
  decimal field denoting its value.
\<close>

lemma generate_order_id_fields:
  assumes "valid_datetime (clock w)" and "1000 \<le> year (clock w)"
  shows "fst (generate_order_id w e) =
           Inr (e @ ''-'' @ str_int (month (clock w)) @ str_int (day (clock w))
                  @ str_int (year (clock w)) @ ''-'' @ str_int (hour (clock w))
                  @ str_int (minute (clock w)) @ str_int (second (clock w))) \<and>
         decimal_field 1 2 (month (clock w)) (str_int (month (clock w))) \<and>
         decimal_field 1 2 (day (clock w)) (str_int (day (clock w))) \<and>
         decimal_field 4 4 (year (clock w)) (str_int (year (clock w))) \<and>
         decimal_field 1 2 (hour (clock w)) (str_int (hour (clock w))) \<and>
         decimal_field 1 2 (minute (clock w)) (str_int (minute (clock w))) \<and>
         decimal_field 1 2 (second (clock w)) (str_int (second (clock w)))"
proof -
  let ?d = "clock w"
  from assms have r: "1 \<le> month ?d" "month ?d \<le> 12" "1 \<le> day ?d" "day ?d \<le> 31"
    "year ?d \<le> 9999" "0 \<le> hour ?d" "hour ?d \<le> 23" "0 \<le> minute ?d" "minute ?d \<le> 59"
    "0 \<le> second ?d" "second ?d \<le> 59"
    by (simp_all add: valid_datetime_def)
  have "decimal_field 1 2 (month ?d) (str_int (month ?d))"
    using r by (intro decimal_field_1_2) simp_all
  moreover have "decimal_field 1 2 (day ?d) (str_int (day ?d))"
    using r by (intro decimal_field_1_2) simp_all
  moreover have "decimal_field 4 4 (year ?d) (str_int (year ?d))"
    using r assms(2) by (intro decimal_field_4) simp_all
  moreover have "decimal_field 1 2 (hour ?d) (str_int (hour ?d))"
    using r by (intro decimal_field_1_2) simp_all
  moreover have "decimal_field 1 2 (minute ?d) (str_int (minute ?d))"
    using r by (intro decimal_field_1_2) simp_all
  moreover have "decimal_field 1 2 (second ?d) (str_int (second ?d))"
    using r by (intro decimal_field_1_2) simp_all
  ultimately show ?thesis
    using generate_order_id_value [of w e] by (intro conjI)
qed

text \<open>
  Claim C1 asks for two-digit hour, minute and second fields, the \<^verbatim>\<open>HHMMSS\<close> of the
  comment on \<^verbatim>\<open>orderid\<close>. The code pads nothing: at 2014-01-02 03:04:05 it returns
  \<^verbatim>\<open>a@b.c-122014-345\<close>, not \<^verbatim>\<open>a@b.c-122014-030405\<close>, and the two different readings
  2014-11-02 01:23:04 and 2014-01-12 12:03:04 give the same id \<^verbatim>\<open>a@b.c-1122014-1234\<close>.
\<close>

theorem generate_order_id_unpadded:
  "fst (generate_order_id world0 ''a@b.c'') = Inr ''a@b.c-122014-345'' \<and>
   fst (generate_order_id world0 ''a@b.c'') \<noteq> Inr ''a@b.c-122014-030405'' \<and>
   clock1 \<noteq> clock2 \<and>
   fst (generate_order_id (world0\<lparr>clock := clock1\<rparr>) ''a@b.c'') = Inr ''a@b.c-1122014-1234'' \<and>
   fst (generate_order_id (world0\<lparr>clock := clock2\<rparr>) ''a@b.c'') = Inr ''a@b.c-1122014-1234''"
  by (simp add: generate_order_id_def world0_def clock0_def clock1_def clock2_def
        str_int_def str_nat.simps digit_char_def)

text \<open>
  Claim C3. \<^verbatim>\<open>generate_ee_order_id(email, eeorder)\<close> is \<open>email\<close>, a hyphen and \<open>eeorder\<close>;
  for a fixed email, distinct \<open>eeorder\<close> values give distinct ids; and the result depends
  on the two arguments only, not on the world (tables, heap, clock) it is called in.
\<close>

theorem generate_ee_order_id_injective:
  "fst (generate_ee_order_id w e x) = Inr (e @ ''-'' @ x) \<and>
   (x \<noteq> y \<longrightarrow> fst (generate_ee_order_id w e x) \<noteq> fst (generate_ee_order_id w' e y)) \<and>
   fst (generate_ee_order_id w e x) = fst (generate_ee_order_id w' e x)"
  by (simp add: generate_ee_order_id_value)

text \<open>
  Two distinct Earth Explorer order numbers, in worlds whose clocks differ.
\<close>

theorem generate_ee_order_id_injective_witness:
  "''0101409219999'' \<noteq> ''0101409220000'' \<and>
   fst (generate_ee_order_id world0 ''a@b.c'' ''0101409219999'')
     = Inr (''a@b.c'' @ ''-'' @ ''0101409219999'') \<and>
   fst (generate_ee_order_id world0 ''a@b.c'' ''0101409219999'')
     \<noteq> fst (generate_ee_order_id (world0\<lparr>clock := clock0\<lparr>second := 6\<rparr>\<rparr>) ''a@b.c'' ''0101409220000'')"
proof -
  have d: "''0101409219999'' \<noteq> ''0101409220000''" by simp
  from d generate_ee_order_id_injective
    [of world0 "''a@b.c''" "''0101409219999''" "''0101409220000''"
        "world0\<lparr>clock := clock0\<lparr>second := 6\<rparr>\<rparr>"]
  show ?thesis by blast
qed

subsection \<open>Configuration lookup\<close>














subsection \<open>Scene status\<close>



subsection \<open>What the factories allocate\<close>

lemma setitem_fresh:
  "setitem (length h) k v (w\<lparr>heap := h @ [d]\<rparr>) = w\<lparr>heap := h @ [d(k \<mapsto> v)]\<rparr>"
  by (simp add: setitem_def)

lemma product_call:
  "get_default_product_options w =
     (length (heap w), w\<lparr>heap := heap w @
       [[''include_sourcefile'' \<mapsto> PyBool False,
         ''include_source_metadata'' \<mapsto> PyBool False,
         ''include_sr_toa'' \<mapsto> PyBool False,
         ''include_sr_thermal'' \<mapsto> PyBool False,
         ''include_sr'' \<mapsto> PyBool False,
         ''include_sr_browse'' \<mapsto> PyBool False,
         ''include_sr_ndvi'' \<mapsto> PyBool False,
         ''include_sr_ndmi'' \<mapsto> PyBool False,
         ''include_sr_nbr'' \<mapsto> PyBool False,
         ''include_sr_nbr2'' \<mapsto> PyBool False,
         ''include_sr_savi'' \<mapsto> PyBool False,
         ''include_sr_msavi'' \<mapsto> PyBool False,
         ''include_sr_evi'' \<mapsto> PyBool False,
         ''include_swe'' \<mapsto> PyBool False,
         ''include_sca'' \<mapsto> PyBool False,
         ''include_solr_index'' \<mapsto> PyBool False,
         ''include_cfmask'' \<mapsto> PyBool False]]\<rparr>)"
  unfolding get_default_product_options_def new_dict_def Let_def prod.case setitem_fresh
  by (rule refl)

lemma projection_call:
  "get_default_projection_options w =
     (length (heap w), w\<lparr>heap := heap w @
       [[''reproject'' \<mapsto> PyBool False,
         ''target_projection'' \<mapsto> PyNone,
         ''central_meridian'' \<mapsto> PyNone,
         ''false_easting'' \<mapsto> PyNone,
         ''false_northing'' \<mapsto> PyNone,
         ''origin_lat'' \<mapsto> PyNone,
         ''std_parallel_1'' \<mapsto> PyNone,
         ''std_parallel_2'' \<mapsto> PyNone,
         ''datum'' \<mapsto> PyStr ''wgs84'',
         ''utm_zone'' \<mapsto> PyNone,
         ''utm_north_south'' \<mapsto> PyNone]]\<rparr>)"
  unfolding get_default_projection_options_def new_dict_def Let_def prod.case setitem_fresh
  by (rule refl)

lemma subset_call:
  "get_default_subset_options w =
     (length (heap w), w\<lparr>heap := heap w @
       [[''image_extents'' \<mapsto> PyBool False,
         ''minx'' \<mapsto> PyNone,
         ''miny'' \<mapsto> PyNone,
         ''maxx'' \<mapsto> PyNone,
         ''maxy'' \<mapsto> PyNone]]\<rparr>)"
  unfolding get_default_subset_options_def new_dict_def Let_def prod.case setitem_fresh
  by (rule refl)

lemma resize_call:
  "get_default_resize_options w =
     (length (heap w), w\<lparr>heap := heap w @
       [[''resize'' \<mapsto> PyBool False,
         ''pixel_size'' \<mapsto> PyNone,
         ''pixel_size_units'' \<mapsto> PyNone]]\<rparr>)"
  unfolding get_default_resize_options_def new_dict_def Let_def prod.case setitem_fresh
  by (rule refl)

lemma resample_call:
  "get_default_resample_options w =
     (length (heap w), w\<lparr>heap := heap w @ [[''resample_method'' \<mapsto> PyStr ''near'']]\<rparr>)"
  unfolding get_default_resample_options_def new_dict_def Let_def prod.case setitem_fresh
  by (rule refl)

lemma ee_call:
  "get_default_ee_options w =
     (length (heap w), w\<lparr>heap := heap w @
       [[''include_sourcefile'' \<mapsto> PyBool False,
         ''include_source_metadata'' \<mapsto> PyBool False,
         ''include_sr_toa'' \<mapsto> PyBool False,
         ''include_sr_thermal'' \<mapsto> PyBool False,
         ''include_sr'' \<mapsto> PyBool True,
         ''include_sr_browse'' \<mapsto> PyBool False,
         ''include_sr_ndvi'' \<mapsto> PyBool False,
         ''include_sr_ndmi'' \<mapsto> PyBool False,
         ''include_sr_nbr'' \<mapsto> PyBool False,
         ''include_sr_nbr2'' \<mapsto> PyBool False,
         ''include_sr_savi'' \<mapsto> PyBool False,
         ''include_sr_evi'' \<mapsto> PyBool False,
         ''include_solr_index'' \<mapsto> PyBool False,
         ''include_cfmask'' \<mapsto> PyBool False,
         ''reproject'' \<mapsto> PyBool False,
         ''resize'' \<mapsto> PyBool False,
         ''image_extents'' \<mapsto> PyBool False]]\<rparr>)"
  unfolding get_default_ee_options_def new_dict_def Let_def prod.case setitem_fresh
  by (rule refl)

lemma returned_call:
  "f w = (length (heap w), w\<lparr>heap := heap w @ d # ds\<rparr>) \<Longrightarrow> returned f w = d"
  by (simp add: returned_def)

lemma returned_product:
  "returned get_default_product_options w =
       [''include_sourcefile'' \<mapsto> PyBool False,
         ''include_source_metadata'' \<mapsto> PyBool False,
         ''include_sr_toa'' \<mapsto> PyBool False,
         ''include_sr_thermal'' \<mapsto> PyBool False,
         ''include_sr'' \<mapsto> PyBool False,
         ''include_sr_browse'' \<mapsto> PyBool False,
         ''include_sr_ndvi'' \<mapsto> PyBool False,
         ''include_sr_ndmi'' \<mapsto> PyBool False,
         ''include_sr_nbr'' \<mapsto> PyBool False,
         ''include_sr_nbr2'' \<mapsto> PyBool False,
         ''include_sr_savi'' \<mapsto> PyBool False,
         ''include_sr_msavi'' \<mapsto> PyBool False,
         ''include_sr_evi'' \<mapsto> PyBool False,
         ''include_swe'' \<mapsto> PyBool False,
         ''include_sca'' \<mapsto> PyBool False,
         ''include_solr_index'' \<mapsto> PyBool False,
         ''include_cfmask'' \<mapsto> PyBool False]"
  by (rule returned_call [where ds = "[]"]) (rule product_call)

lemma returned_projection:
  "returned get_default_projection_options w =
       [''reproject'' \<mapsto> PyBool False,
         ''target_projection'' \<mapsto> PyNone,
         ''central_meridian'' \<mapsto> PyNone,
         ''false_easting'' \<mapsto> PyNone,
         ''false_northing'' \<mapsto> PyNone,
         ''origin_lat'' \<mapsto> PyNone,
         ''std_parallel_1'' \<mapsto> PyNone,
         ''std_parallel_2'' \<mapsto> PyNone,
         ''datum'' \<mapsto> PyStr ''wgs84'',
         ''utm_zone'' \<mapsto> PyNone,
         ''utm_north_south'' \<mapsto> PyNone]"
  by (rule returned_call [where ds = "[]"]) (rule projection_call)

lemma returned_subset:
  "returned get_default_subset_options w =
       [''image_extents'' \<mapsto> PyBool False,
         ''minx'' \<mapsto> PyNone,
         ''miny'' \<mapsto> PyNone,
         ''maxx'' \<mapsto> PyNone,
         ''maxy'' \<mapsto> PyNone]"
  by (rule returned_call [where ds = "[]"]) (rule subset_call)

lemma returned_resize:
  "returned get_default_resize_options w =
       [''resize'' \<mapsto> PyBool False,
         ''pixel_size'' \<mapsto> PyNone,
         ''pixel_size_units'' \<mapsto> PyNone]"
  by (rule returned_call [where ds = "[]"]) (rule resize_call)

lemma returned_resample:
  "returned get_default_resample_options w = [''resample_method'' \<mapsto> PyStr ''near'']"
  by (rule returned_call [where ds = "[]"]) (rule resample_call)

lemma returned_ee:
  "returned get_default_ee_options w =
       [''include_sourcefile'' \<mapsto> PyBool False,
         ''include_source_metadata'' \<mapsto> PyBool False,
         ''include_sr_toa'' \<mapsto> PyBool False,
         ''include_sr_thermal'' \<mapsto> PyBool False,
         ''include_sr'' \<mapsto> PyBool True,
         ''include_sr_browse'' \<mapsto> PyBool False,
         ''include_sr_ndvi'' \<mapsto> PyBool False,
         ''include_sr_ndmi'' \<mapsto> PyBool False,
         ''include_sr_nbr'' \<mapsto> PyBool False,
         ''include_sr_nbr2'' \<mapsto> PyBool False,
         ''include_sr_savi'' \<mapsto> PyBool False,
         ''include_sr_evi'' \<mapsto> PyBool False,
         ''include_solr_index'' \<mapsto> PyBool False,
         ''include_cfmask'' \<mapsto> PyBool False,
         ''reproject'' \<mapsto> PyBool False,
         ''resize'' \<mapsto> PyBool False,
         ''image_extents'' \<mapsto> PyBool False]"
  by (rule returned_call [where ds = "[]"]) (rule ee_call)

lemmas returned_components =
  returned_product returned_projection returned_subset returned_resize returned_resample

text \<open>
  Each factory appends the dictionary it returns, whatever the world it is called in.
\<close>

lemma product_appends:
  "get_default_product_options w' =
     (length (heap w'), w'\<lparr>heap := heap w' @ [returned get_default_product_options w]\<rparr>)"
  unfolding returned_product by (rule product_call)

lemma projection_appends:
  "get_default_projection_options w' =
     (length (heap w'), w'\<lparr>heap := heap w' @ [returned get_default_projection_options w]\<rparr>)"
  unfolding returned_projection by (rule projection_call)

lemma subset_appends:
  "get_default_subset_options w' =
     (length (heap w'), w'\<lparr>heap := heap w' @ [returned get_default_subset_options w]\<rparr>)"
  unfolding returned_subset by (rule subset_call)

lemma resize_appends:
  "get_default_resize_options w' =
     (length (heap w'), w'\<lparr>heap := heap w' @ [returned get_default_resize_options w]\<rparr>)"
  unfolding returned_resize by (rule resize_call)

lemma resample_appends:
  "get_default_resample_options w' =
     (length (heap w'), w'\<lparr>heap := heap w' @ [returned get_default_resample_options w]\<rparr>)"
  unfolding returned_resample by (rule resample_call)

lemma ee_appends:
  "get_default_ee_options w' =
     (length (heap w'), w'\<lparr>heap := heap w' @ [returned get_default_ee_options w]\<rparr>)"
  unfolding returned_ee by (rule ee_call)

lemma dict_update_at:
  "dict_update a b (w\<lparr>heap := hp\<rparr>) = w\<lparr>heap := hp[a := (hp ! a) ++ (hp ! b)]\<rparr>"
  by (simp add: dict_update_def)

lemma factory_at:
  "get_default_product_options (w'\<lparr>heap := hp\<rparr>)
     = (length hp, w'\<lparr>heap := hp @ [returned get_default_product_options w]\<rparr>)"
  "get_default_projection_options (w'\<lparr>heap := hp\<rparr>)
     = (length hp, w'\<lparr>heap := hp @ [returned get_default_projection_options w]\<rparr>)"
  "get_default_subset_options (w'\<lparr>heap := hp\<rparr>)
     = (length hp, w'\<lparr>heap := hp @ [returned get_default_subset_options w]\<rparr>)"
  "get_default_resize_options (w'\<lparr>heap := hp\<rparr>)
     = (length hp, w'\<lparr>heap := hp @ [returned get_default_resize_options w]\<rparr>)"
  "get_default_resample_options (w'\<lparr>heap := hp\<rparr>)
     = (length hp, w'\<lparr>heap := hp @ [returned get_default_resample_options w]\<rparr>)"
  by (simp_all add: product_appends [where w = w] projection_appends [where w = w]
        subset_appends [where w = w] resize_appends [where w = w] resample_appends [where w = w])

lemma options_call:
  "get_default_options w =
     (length (heap w), w\<lparr>heap := heap w @
        [returned get_default_product_options w ++ returned get_default_projection_options w
           ++ returned get_default_subset_options w ++ returned get_default_resize_options w
           ++ returned get_default_resample_options w,
         returned get_default_product_options w, returned get_default_projection_options w,
         returned get_default_subset_options w, returned get_default_resize_options w,
         returned get_default_resample_options w]\<rparr>)"
  unfolding get_default_options_def new_dict_def Let_def
  by (simp add: factory_at [where w = w] dict_update_at nth_append)

lemma returned_options:
  "returned get_default_options w =
     returned get_default_product_options w ++ returned get_default_projection_options w
       ++ returned get_default_subset_options w ++ returned get_default_resize_options w
       ++ returned get_default_resample_options w"
  by (rule returned_call) (rule options_call)

lemma returned_options_const:
  "returned get_default_options w' = returned get_default_options w"
  by (simp only: returned_options returned_components)

lemma returned_ee_const:
  "returned get_default_ee_options w' = returned get_default_ee_options w"
  by (simp only: returned_ee)

subsection \<open>Merging dictionaries with disjoint keys\<close>

lemma fold_update_dom:
  "dom (fold (\<lambda>p o'. o' ++ p) ps m) = dom m \<union> (\<Union>p\<in>set ps. dom p)"
  by (induction ps arbitrary: m) auto

lemma dom_merge_all: "dom (merge_all ps) = (\<Union>p\<in>set ps. dom p)"
  by (simp add: merge_all_def fold_update_dom)

lemma fold_update_untouched:
  "\<forall>p\<in>set ps. k \<notin> dom p \<Longrightarrow> fold (\<lambda>p o'. o' ++ p) ps m k = m k"
  by (induction ps arbitrary: m) (simp_all add: map_add_dom_app_simps)

lemma fold_update_lookup:
  assumes "\<forall>x\<in>set ps. \<forall>y\<in>set ps. x = y \<or> dom x \<inter> dom y = {}"
    and "d \<in> set ps" and "k \<in> dom d"
  shows "fold (\<lambda>p o'. o' ++ p) ps m k = d k"
  using assms
proof (induction ps arbitrary: m)
  case Nil
  then show ?case by simp
next
  case (Cons x xs)
  show ?case
  proof (cases "d \<in> set xs")
    case True
    with Cons show ?thesis by simp
  next
    case False
    with Cons.prems have dx: "d = x" by simp
    have "\<forall>p\<in>set xs. k \<notin> dom p"
    proof
      fix p
      assume p: "p \<in> set xs"
      with False dx have "p \<noteq> x" by blast
      with Cons.prems(1) p have "dom x \<inter> dom p = {}" by auto
      with Cons.prems(3) dx show "k \<notin> dom p" by blast
    qed
    then have "fold (\<lambda>p o'. o' ++ p) xs (m ++ x) k = (m ++ x) k"
      by (rule fold_update_untouched)
    with Cons.prems(3) dx show ?thesis
      by (simp add: map_add_dom_app_simps)
  qed
qed

lemma merge_all_lookup:
  "\<forall>x\<in>set ps. \<forall>y\<in>set ps. x = y \<or> dom x \<inter> dom y = {} \<Longrightarrow> d \<in> set ps \<Longrightarrow> k \<in> dom d
     \<Longrightarrow> merge_all ps k = d k"
  unfolding merge_all_def by (rule fold_update_lookup)

lemma merge_all_permuted:
  assumes disj: "\<forall>x\<in>set ps. \<forall>y\<in>set ps. x = y \<or> dom x \<inter> dom y = {}"
    and perm: "mset qs = mset ps"
  shows "merge_all qs = merge_all ps"
  unfolding merge_all_def
proof (rule fold_permuted_eq [where P = "\<lambda>_. True", OF perm])
  fix x y and z :: dict
  assume "x \<in> set qs" and "y \<in> set qs"
  with perm have "x \<in> set ps" and "y \<in> set ps"
    by (auto dest: mset_eq_setD)
  with disj have "x = y \<or> dom x \<inter> dom y = {}" by blast
  then have "y ++ x = x ++ y"
    by (auto intro: map_add_comm)
  then have "z ++ (y ++ x) = z ++ (x ++ y)" by simp
  then show "z ++ y ++ x = z ++ x ++ y" by (simp only: map_add_assoc)
qed simp_all

lemma returned_options_merge_all:
  "returned get_default_options w = merge_all (component_defaults w)"
  by (simp add: returned_options merge_all_def component_defaults_def)

lemma components_disjoint:
  "dom (returned get_default_product_options w) \<inter> dom (returned get_default_projection_options w) = {}"
  "dom (returned get_default_product_options w) \<inter> dom (returned get_default_subset_options w) = {}"
  "dom (returned get_default_product_options w) \<inter> dom (returned get_default_resize_options w) = {}"
  "dom (returned get_default_product_options w) \<inter> dom (returned get_default_resample_options w) = {}"
  "dom (returned get_default_projection_options w) \<inter> dom (returned get_default_subset_options w) = {}"
  "dom (returned get_default_projection_options w) \<inter> dom (returned get_default_resize_options w) = {}"
  "dom (returned get_default_projection_options w) \<inter> dom (returned get_default_resample_options w) = {}"
  "dom (returned get_default_subset_options w) \<inter> dom (returned get_default_resize_options w) = {}"
  "dom (returned get_default_subset_options w) \<inter> dom (returned get_default_resample_options w) = {}"
  "dom (returned get_default_resize_options w) \<inter> dom (returned get_default_resample_options w) = {}"
  unfolding returned_components by simp_all

lemma components_disjoint_nth:
  assumes "i < 5" and "j < 5" and "i \<noteq> j"
  shows "dom (component_defaults w ! i) \<inter> dom (component_defaults w ! j) = {}"
proof -
  have sym: "A \<inter> B = {} \<Longrightarrow> B \<inter> A = {}" for A B :: "string set"
    by blast
  from assms have "i = 0 \<or> i = 1 \<or> i = 2 \<or> i = 3 \<or> i = 4" "j = 0 \<or> j = 1 \<or> j = 2 \<or> j = 3 \<or> j = 4"
    by arith+
  with \<open>i \<noteq> j\<close> show ?thesis
    by (elim disjE)
       (simp_all add: component_defaults_def components_disjoint components_disjoint [THEN sym])
qed

lemma length_component_defaults: "length (component_defaults w) = 5"
  by (simp add: component_defaults_def)

lemma components_disjoint_set:
  assumes "x \<in> set (component_defaults w)" and "y \<in> set (component_defaults w)"
  shows "x = y \<or> dom x \<inter> dom y = {}"
proof -
  from assms obtain i j where "i < 5" "x = component_defaults w ! i" "j < 5" "y = component_defaults w ! j"
    by (auto simp: in_set_conv_nth length_component_defaults)
  then show ?thesis
    by (cases "i = j") (simp_all add: components_disjoint_nth)
qed

subsection \<open>Keys and values of the defaults\<close>

lemma list_all_imp: "list_all P xs \<Longrightarrow> (\<And>x. P x \<Longrightarrow> Q x) \<Longrightarrow> list_all Q xs"
  by (simp add: list_all_iff)

lemma dom_product: "dom (returned get_default_product_options w) = set product_flags"
proof -
  have "dom (returned get_default_product_options w) = set (rev product_flags)"
    unfolding returned_product product_flags_def by simp
  then show ?thesis by simp
qed

lemma product_list_all:
  "list_all (\<lambda>k. returned get_default_product_options w k = Some (PyBool False)) product_flags"
  unfolding returned_product product_flags_def by simp

lemma options_list_all:
  "list_all (\<lambda>k. returned get_default_options w k = Some (PyBool False)) product_flags"
proof -
  have "returned get_default_options w k = Some (PyBool False)" if "k \<in> set product_flags" for k
  proof -
    have d: "returned get_default_product_options w \<in> set (component_defaults w)"
      by (simp add: component_defaults_def)
    from that have "k \<in> dom (returned get_default_product_options w)"
      by (simp only: dom_product)
    with components_disjoint_set [of _ w] d
    have "merge_all (component_defaults w) k = returned get_default_product_options w k"
      by (intro merge_all_lookup) blast+
    moreover from that product_list_all [of w]
    have "returned get_default_product_options w k = Some (PyBool False)"
      by (simp add: list_all_iff)
    ultimately show ?thesis by (simp only: returned_options_merge_all)
  qed
  then show ?thesis by (simp add: list_all_iff)
qed

lemma ee_list_all:
  "list_all (\<lambda>k. returned get_default_ee_options w k = Some (PyBool False))
     (filter (\<lambda>k. k \<notin> {''include_sr'', ''include_sr_msavi'', ''include_swe'', ''include_sca''})
        product_flags)"
  unfolding returned_ee product_flags_def by simp

lemma ee_missing:
  "filter (\<lambda>k. returned get_default_ee_options w k = None) product_flags
     = [''include_sr_msavi'', ''include_swe'', ''include_sca'']"
  unfolding returned_ee product_flags_def by simp

lemma dom_ee:
  "dom (returned get_default_ee_options w) =
     set [''include_sourcefile'', ''include_source_metadata'', ''include_sr_toa'',
      ''include_sr_thermal'', ''include_sr'', ''include_sr_browse'', ''include_sr_ndvi'',
      ''include_sr_ndmi'', ''include_sr_nbr'', ''include_sr_nbr2'', ''include_sr_savi'',
      ''include_sr_evi'', ''include_solr_index'', ''include_cfmask'', ''reproject'',
      ''resize'', ''image_extents'']"
proof -
  have "dom (returned get_default_ee_options w) =
     set (rev [''include_sourcefile'', ''include_source_metadata'', ''include_sr_toa'',
      ''include_sr_thermal'', ''include_sr'', ''include_sr_browse'', ''include_sr_ndvi'',
      ''include_sr_ndmi'', ''include_sr_nbr'', ''include_sr_nbr2'', ''include_sr_savi'',
      ''include_sr_evi'', ''include_solr_index'', ''include_cfmask'', ''reproject'',
      ''resize'', ''image_extents''])"
    unfolding returned_ee by simp
  then show ?thesis by (simp only: set_rev)
qed

lemma ee_keys_in_components:
  "list_all (\<lambda>k. k \<in> set product_flags
              \<or> k \<in> dom (returned get_default_projection_options w)
              \<or> k \<in> dom (returned get_default_subset_options w)
              \<or> k \<in> dom (returned get_default_resize_options w))
     [''include_sourcefile'', ''include_source_metadata'', ''include_sr_toa'',
      ''include_sr_thermal'', ''include_sr'', ''include_sr_browse'', ''include_sr_ndvi'',
      ''include_sr_ndmi'', ''include_sr_nbr'', ''include_sr_nbr2'', ''include_sr_savi'',
      ''include_sr_evi'', ''include_solr_index'', ''include_cfmask'', ''reproject'',
      ''resize'', ''image_extents'']"
  unfolding product_flags_def returned_components by simp

lemma ee_keys_in_options:
  "list_all (\<lambda>k. returned get_default_options w k \<noteq> None)
     [''include_sourcefile'', ''include_source_metadata'', ''include_sr_toa'',
      ''include_sr_thermal'', ''include_sr'', ''include_sr_browse'', ''include_sr_ndvi'',
      ''include_sr_ndmi'', ''include_sr_nbr'', ''include_sr_nbr2'', ''include_sr_savi'',
      ''include_sr_evi'', ''include_solr_index'', ''include_cfmask'', ''reproject'',
      ''resize'', ''image_extents'']"
proof -
  have step: "returned get_default_options w k \<noteq> None"
    if "k \<in> set product_flags
          \<or> k \<in> dom (returned get_default_projection_options w)
          \<or> k \<in> dom (returned get_default_subset_options w)
          \<or> k \<in> dom (returned get_default_resize_options w)" for k
  proof -
    from that have "k \<in> dom (returned get_default_options w)"
      by (auto simp: returned_options dom_product)
    then show ?thesis by (simp add: dom_def)
  qed
  show ?thesis
    by (rule list_all_imp [OF ee_keys_in_components]) (rule step)
qed

lemma subset_dom_by_list:
  "A = set ks \<Longrightarrow> list_all (\<lambda>k. m k \<noteq> None) ks \<Longrightarrow> A \<subseteq> dom m"
  by (auto simp: list_all_iff)

lemma ee_missing_keys:
  "dom (returned get_default_product_options w) - dom (returned get_default_ee_options w)
     = {''include_sr_msavi'', ''include_swe'', ''include_sca''}"
proof -
  have "dom (returned get_default_product_options w) - dom (returned get_default_ee_options w)
      = set (filter (\<lambda>k. returned get_default_ee_options w k = None) product_flags)"
    unfolding dom_product by (auto simp: dom_def)
  also have "\<dots> = set [''include_sr_msavi'', ''include_swe'', ''include_sca'']"
    by (simp only: ee_missing)
  finally show ?thesis by simp
qed

lemma generate_order_id_world: "snd (generate_order_id w e) = w"
  by (simp add: generate_order_id_def Let_def)

lemma generate_ee_order_id_world: "snd (generate_ee_order_id w e x) = w"
  by (simp add: generate_ee_order_id_def)

subsection \<open>The default option sets\<close>

text \<open>
  Claim C6. The defaults for an order that came through Earth Explorer map
  \<^verbatim>\<open>include_sr\<close> to \<^verbatim>\<open>True\<close>, and \<^verbatim>\<open>reproject\<close> and \<^verbatim>\<open>resize\<close> to \<^verbatim>\<open>False\<close>.
\<close>

theorem ee_defaults_scenario:
  "returned get_default_ee_options w ''include_sr'' = Some (PyBool True) \<and>
   returned get_default_ee_options w ''reproject'' = Some (PyBool False) \<and>
   returned get_default_ee_options w ''resize'' = Some (PyBool False)"
  unfolding returned_ee by simp

text \<open>
  Claim C2, as the code has it. The Earth Explorer defaults map \<^verbatim>\<open>include_sr\<close> to
  \<^verbatim>\<open>True\<close> and every other product flag of the ESPA product defaults to \<^verbatim>\<open>False\<close>, apart
  from \<^verbatim>\<open>include_sr_msavi\<close>, \<^verbatim>\<open>include_swe\<close> and \<^verbatim>\<open>include_sca\<close>, about which this
  statement says nothing. The keys of the ESPA product defaults are exactly the seventeen
  listed flags, and both the product defaults and the merged ESPA defaults map each of
  them to \<^verbatim>\<open>False\<close>.
\<close>

theorem default_product_flags:
  "returned get_default_ee_options w ''include_sr'' = Some (PyBool True) \<and>
   (\<forall>k \<in> set product_flags - {''include_sr'', ''include_sr_msavi'', ''include_swe'', ''include_sca''}.
      returned get_default_ee_options w k = Some (PyBool False)) \<and>
   dom (returned get_default_product_options w) = set product_flags \<and>
   (\<forall>k \<in> set product_flags.
      returned get_default_product_options w k = Some (PyBool False) \<and>
      returned get_default_options w k = Some (PyBool False))"
proof (intro conjI ballI)
  show "returned get_default_ee_options w ''include_sr'' = Some (PyBool True)"
    unfolding returned_ee by simp
next
  fix k
  assume "k \<in> set product_flags - {''include_sr'', ''include_sr_msavi'', ''include_swe'', ''include_sca''}"
  with ee_list_all [of w] show "returned get_default_ee_options w k = Some (PyBool False)"
    by (simp add: list_all_iff)
next
  show "dom (returned get_default_product_options w) = set product_flags"
    by (rule dom_product)
next
  fix k
  assume "k \<in> set product_flags"
  with product_list_all [of w] show "returned get_default_product_options w k = Some (PyBool False)"
    by (simp add: list_all_iff)
next
  fix k
  assume "k \<in> set product_flags"
  with options_list_all [of w] show "returned get_default_options w k = Some (PyBool False)"
    by (simp add: list_all_iff)
qed

text \<open>
  One flag of each kind: \<^verbatim>\<open>include_sr_toa\<close> in the Earth Explorer defaults,
  \<^verbatim>\<open>include_swe\<close> in the ESPA ones.
\<close>

theorem default_product_flags_witness:
  "''include_sr_toa'' \<in> set product_flags - {''include_sr'', ''include_sr_msavi'', ''include_swe'', ''include_sca''} \<and>
   ''include_swe'' \<in> set product_flags \<and>
   returned get_default_ee_options world0 ''include_sr_toa'' = Some (PyBool False) \<and>
   returned get_default_product_options world0 ''include_swe'' = Some (PyBool False) \<and>
   returned get_default_options world0 ''include_swe'' = Some (PyBool False)"
proof -
  have m: "''include_sr_toa'' \<in> set product_flags - {''include_sr'', ''include_sr_msavi'', ''include_swe'', ''include_sca''}"
    "''include_swe'' \<in> set product_flags"
    by (simp_all add: product_flags_def)
  note t = default_product_flags [of world0]
  note a = t [THEN conjunct2, THEN conjunct1, THEN bspec, OF m(1)]
  note b = t [THEN conjunct2, THEN conjunct2, THEN conjunct2, THEN bspec, OF m(2)]
  from m a b show ?thesis by (intro conjI) (erule conjunct1 conjunct2 | assumption)+
qed

text \<open>
  Claim C2 as stated fails at \<^verbatim>\<open>include_swe\<close>: it is a product flag of the ESPA defaults,
  and the Earth Explorer defaults do not map it to \<^verbatim>\<open>False\<close>.
\<close>

theorem ee_defaults_include_swe_counterexample:
  "''include_swe'' \<in> set product_flags \<and>
   returned get_default_product_options world0 ''include_swe'' = Some (PyBool False) \<and>
   returned get_default_ee_options world0 ''include_swe'' \<noteq> Some (PyBool False)"
  unfolding returned_ee returned_product product_flags_def by simp

text \<open>
  Claim C8. The keys of the Earth Explorer defaults are a proper subset of the keys of the
  merged ESPA defaults; \<^verbatim>\<open>include_swe\<close>, \<^verbatim>\<open>include_sca\<close> and \<^verbatim>\<open>include_sr_msavi\<close> are not
  among them, and these three are exactly the product flags the Earth Explorer defaults
  leave out.
\<close>

theorem ee_keys_proper_subset:
  "dom (returned get_default_ee_options w) \<subset> dom (returned get_default_options w) \<and>
   ''include_swe'' \<notin> dom (returned get_default_ee_options w) \<and>
   ''include_sca'' \<notin> dom (returned get_default_ee_options w) \<and>
   ''include_sr_msavi'' \<notin> dom (returned get_default_ee_options w) \<and>
   dom (returned get_default_product_options w) - dom (returned get_default_ee_options w)
     = {''include_sr_msavi'', ''include_swe'', ''include_sca''}"
proof (intro conjI)
  let ?D = "dom (returned get_default_product_options w) - dom (returned get_default_ee_options w)"
  have swe: "''include_swe'' \<in> ?D" and sca: "''include_sca'' \<in> ?D"
    and msavi: "''include_sr_msavi'' \<in> ?D"
    by (simp_all only: ee_missing_keys insertI1 insertI2)
  show "''include_swe'' \<notin> dom (returned get_default_ee_options w)"
    using swe by simp
  show "''include_sca'' \<notin> dom (returned get_default_ee_options w)"
    using sca by simp
  show "''include_sr_msavi'' \<notin> dom (returned get_default_ee_options w)"
    using msavi by simp
  show "?D = {''include_sr_msavi'', ''include_swe'', ''include_sca''}"
    by (rule ee_missing_keys)
  have sub: "dom (returned get_default_ee_options w) \<subseteq> dom (returned get_default_options w)"
    by (rule subset_dom_by_list [OF dom_ee ee_keys_in_options])
  have "dom (returned get_default_product_options w) \<subseteq> dom (returned get_default_options w)"
    unfolding returned_options by auto
  moreover from swe have "''include_swe'' \<in> dom (returned get_default_product_options w)"
    by simp
  ultimately have "''include_swe'' \<in> dom (returned get_default_options w)"
    by (rule subsetD)
  moreover from swe have "''include_swe'' \<notin> dom (returned get_default_ee_options w)"
    by simp
  ultimately have "dom (returned get_default_ee_options w) \<noteq> dom (returned get_default_options w)"
    by (rule_tac notI) simp
  with sub show "dom (returned get_default_ee_options w) \<subset> dom (returned get_default_options w)"
    by (rule psubsetI)
qed

text \<open>
  Claim C9. The five component dictionaries have pairwise disjoint key sets; the merged
  defaults are their union, with the keys of all five; at every key of a component the
  merged value is that component's value, and every merged key belongs to exactly one
  component; and merging the five in any order gives the same dictionary.
\<close>

theorem default_options_disjoint_union:
  "(\<forall>i<5. \<forall>j<5. i \<noteq> j \<longrightarrow>
      dom (component_defaults w ! i) \<inter> dom (component_defaults w ! j) = {}) \<and>
   returned get_default_options w = merge_all (component_defaults w) \<and>
   dom (returned get_default_options w) = (\<Union>d\<in>set (component_defaults w). dom d) \<and>
   (\<forall>d\<in>set (component_defaults w). \<forall>k\<in>dom d. returned get_default_options w k = d k) \<and>
   (\<forall>k\<in>dom (returned get_default_options w). \<exists>!i. i < 5 \<and> k \<in> dom (component_defaults w ! i)) \<and>
   (\<forall>ps. mset ps = mset (component_defaults w) \<longrightarrow> merge_all ps = returned get_default_options w)"
proof (intro conjI allI impI ballI)
  fix i j :: nat
  assume "i < 5" "j < 5" "i \<noteq> j"
  then show "dom (component_defaults w ! i) \<inter> dom (component_defaults w ! j) = {}"
    by (rule components_disjoint_nth)
next
  show "returned get_default_options w = merge_all (component_defaults w)"
    by (rule returned_options_merge_all)
next
  show "dom (returned get_default_options w) = (\<Union>d\<in>set (component_defaults w). dom d)"
    by (simp only: returned_options_merge_all dom_merge_all)
next
  fix d k
  assume "d \<in> set (component_defaults w)" "k \<in> dom d"
  with components_disjoint_set [of _ w] show "returned get_default_options w k = d k"
    unfolding returned_options_merge_all by (intro merge_all_lookup) blast+
next
  fix k
  assume "k \<in> dom (returned get_default_options w)"
  then obtain d where "d \<in> set (component_defaults w)" "k \<in> dom d"
    unfolding returned_options_merge_all dom_merge_all by blast
  then obtain i where i: "i < 5" "k \<in> dom (component_defaults w ! i)"
    by (auto simp: in_set_conv_nth length_component_defaults)
  show "\<exists>!i. i < 5 \<and> k \<in> dom (component_defaults w ! i)"
  proof (rule ex1I [of _ i])
    from i show "i < 5 \<and> k \<in> dom (component_defaults w ! i)" by simp
  next
    fix j
    assume j: "j < 5 \<and> k \<in> dom (component_defaults w ! j)"
    show "j = i"
    proof (rule ccontr)
      assume "j \<noteq> i"
      with i j have "dom (component_defaults w ! j) \<inter> dom (component_defaults w ! i) = {}"
        by (intro components_disjoint_nth) simp_all
      with i j show False by blast
    qed
  qed
next
  fix ps
  assume "mset ps = mset (component_defaults w)"
  with components_disjoint_set [of _ w] show "merge_all ps = returned get_default_options w"
    unfolding returned_options_merge_all by (intro merge_all_permuted) blast+
qed

text \<open>
  Product against projection options, the key \<^verbatim>\<open>datum\<close>, and the five merged in reverse
  order.
\<close>

theorem default_options_disjoint_union_witness:
  "dom (component_defaults world0 ! 0) \<inter> dom (component_defaults world0 ! 1) = {} \<and>
   component_defaults world0 ! 1 \<in> set (component_defaults world0) \<and>
   ''datum'' \<in> dom (component_defaults world0 ! 1) \<and>
   returned get_default_options world0 ''datum'' = Some (PyStr ''wgs84'') \<and>
   mset (rev (component_defaults world0)) = mset (component_defaults world0) \<and>
   merge_all (rev (component_defaults world0)) = returned get_default_options world0"
proof -
  note t = default_options_disjoint_union [of world0]
  have pr: "component_defaults world0 ! 1 = returned get_default_projection_options world0"
    by (simp add: component_defaults_def)
  have m: "component_defaults world0 ! 1 \<in> set (component_defaults world0)"
    by (simp add: component_defaults_def)
  have k: "''datum'' \<in> dom (component_defaults world0 ! 1)"
    unfolding pr returned_projection by simp
  have v: "(component_defaults world0 ! 1) ''datum'' = Some (PyStr ''wgs84'')"
    unfolding pr returned_projection by simp
  have p: "mset (rev (component_defaults world0)) = mset (component_defaults world0)"
    by simp
  from t [THEN conjunct1] have a:
    "dom (component_defaults world0 ! 0) \<inter> dom (component_defaults world0 ! 1) = {}"
    by simp
  from t [THEN conjunct2, THEN conjunct2, THEN conjunct2, THEN conjunct1, THEN bspec, OF m,
          THEN bspec, OF k] v
  have b: "returned get_default_options world0 ''datum'' = Some (PyStr ''wgs84'')"
    by simp
  from t [THEN conjunct2, THEN conjunct2, THEN conjunct2, THEN conjunct2, THEN conjunct2,
          THEN spec, THEN mp, OF p]
  have c: "merge_all (rev (component_defaults world0)) = returned get_default_options world0" .
  from a m k b p c show ?thesis by (intro conjI)
qed

text \<open>
  Claim C7. The two id generators return the world as they found it. The two option
  factories leave the four tables and the clock alone and keep every dictionary that
  existed before the call; the reference they return is to a dictionary that did not
  exist before and does afterwards, a second call returns a different one, and writing
  into the first result does not change what the next call returns.
\<close>

theorem order_functions_frame:
  "snd (generate_order_id w e) = w \<and>
   snd (generate_ee_order_id w e x) = w \<and>
   tables (snd (get_default_options w)) = tables w \<and>
   tables (snd (get_default_ee_options w)) = tables w \<and>
   clock (snd (get_default_options w)) = clock w \<and>
   clock (snd (get_default_ee_options w)) = clock w \<and>
   take (length (heap w)) (heap (snd (get_default_options w))) = heap w \<and>
   take (length (heap w)) (heap (snd (get_default_ee_options w))) = heap w \<and>
   \<not> fst (get_default_options w) < length (heap w) \<and>
   \<not> fst (get_default_ee_options w) < length (heap w) \<and>
   fst (get_default_options w) < length (heap (snd (get_default_options w))) \<and>
   fst (get_default_ee_options w) < length (heap (snd (get_default_ee_options w))) \<and>
   fst (get_default_options (snd (get_default_options w))) \<noteq> fst (get_default_options w) \<and>
   fst (get_default_ee_options (snd (get_default_ee_options w))) \<noteq> fst (get_default_ee_options w) \<and>
   returned get_default_options
      (setitem (fst (get_default_options w)) k v (snd (get_default_options w)))
     = returned get_default_options w \<and>
   returned get_default_ee_options
      (setitem (fst (get_default_ee_options w)) k v (snd (get_default_ee_options w)))
     = returned get_default_ee_options w"
proof -
  have o1: "fst (get_default_options w') = length (heap w')" for w'
    by (simp add: options_call)
  have o2: "length (heap (snd (get_default_options w'))) = length (heap w') + 6" for w'
    by (simp add: options_call)
  have e1: "fst (get_default_ee_options w') = length (heap w')" for w'
    by (simp add: ee_appends [where w = w'])
  have e2: "length (heap (snd (get_default_ee_options w'))) = length (heap w') + 1" for w'
    by (simp add: ee_appends [where w = w'])
  have "tables (snd (get_default_options w)) = tables w"
    "clock (snd (get_default_options w)) = clock w"
    "take (length (heap w)) (heap (snd (get_default_options w))) = heap w"
    by (simp_all add: options_call tables_def)
  moreover have "tables (snd (get_default_ee_options w)) = tables w"
    "clock (snd (get_default_ee_options w)) = clock w"
    "take (length (heap w)) (heap (snd (get_default_ee_options w))) = heap w"
    by (simp_all add: ee_appends [where w = w] tables_def)
  moreover have "\<not> fst (get_default_options w) < length (heap w)"
    "fst (get_default_options w) < length (heap (snd (get_default_options w)))"
    "fst (get_default_options (snd (get_default_options w))) \<noteq> fst (get_default_options w)"
    by (simp_all add: o1 o2)
  moreover have "\<not> fst (get_default_ee_options w) < length (heap w)"
    "fst (get_default_ee_options w) < length (heap (snd (get_default_ee_options w)))"
    "fst (get_default_ee_options (snd (get_default_ee_options w))) \<noteq> fst (get_default_ee_options w)"
    by (simp_all add: e1 e2)
  ultimately show ?thesis
    using generate_order_id_world [of w e] generate_ee_order_id_world [of w e x]
      returned_options_const [of "setitem (fst (get_default_options w)) k v (snd (get_default_options w))" w]
      returned_ee_const [of "setitem (fst (get_default_ee_options w)) k v (snd (get_default_ee_options w))" w]
    by (intro conjI)
qed

end
